theory Spec2Isabelle
  imports Main
begin

section \<open>Data model (shared/schema.ts)\<close>

text \<open>
  The tables of the schema as records, one field per column. A nullable column is an
  \<open>option\<close>. Timestamps are instants in milliseconds since the epoch (what
  \<open>Date.getTime()\<close> returns); \<open>integer\<close> columns are PostgreSQL 32-bit integers,
  which the database range-checks on every write. Column names are prefixed by their
  table, since several tables share \<open>id\<close>, \<open>roomId\<close>, \<open>status\<close> and \<open>createdAt\<close>.
\<close>

type_synonym timestamp = int

definition roomStatusEnum :: "string list" where
  "roomStatusEnum = [''dirty'', ''cleaning'', ''inspection'', ''clean'', ''occupied'']"

definition roomTypeEnum :: "string list" where
  "roomTypeEnum = [''standard'', ''deluxe'', ''suite'']"

definition userRoleEnum :: "string list" where
  "userRoleEnum = [''manager'', ''housekeeper'', ''supervisor'']"

definition priorityEnum :: "string list" where
  "priorityEnum = [''baixa'', ''media'', ''alta'', ''urgente'']"

definition problemTypeEnum :: "string list" where
  "problemTypeEnum = [''eletrico'', ''hidraulico'', ''ar_condicionado'', ''moveis'',
     ''eletronicos'', ''limpeza_especial'', ''outros'']"

record user =
  user_id :: string
  user_name :: "string option"
  user_email :: "string option"
  user_firstName :: "string option"
  user_lastName :: "string option"
  user_profileImageUrl :: "string option"
  user_role :: string
  user_createdAt :: "timestamp option"
  user_updatedAt :: "timestamp option"

record room =
  room_id :: string
  room_number :: string
  room_floor :: int
  room_type :: string
  room_status :: string
  room_assignedTo :: "string option"
  room_lastCleaned :: "timestamp option"
  room_priority :: "string option"
  room_createdAt :: "timestamp option"
  room_updatedAt :: "timestamp option"

record cleaningSession =
  cs_id :: string
  cs_roomId :: string
  cs_housekeeperId :: string
  cs_startTime :: timestamp
  cs_endTime :: "timestamp option"
  cs_pausedTime :: "int option"
  cs_totalTime :: "int option"
  cs_status :: string
  cs_createdAt :: "timestamp option"

record checklistTemplate =
  ct_id :: string
  ct_name :: string
  ct_items :: string
  ct_createdAt :: "timestamp option"

record checklistCompletion =
  cc_id :: string
  cc_roomId :: string
  cc_templateId :: string
  cc_housekeeperId :: string
  cc_supervisorId :: "string option"
  cc_completedItems :: "(string \<times> bool) list"
  cc_supervisorSignature :: "string option"
  cc_isCompleted :: "bool option"
  cc_completedAt :: "timestamp option"
  cc_createdAt :: "timestamp option"

record problemReport =
  pr_id :: string
  pr_roomId :: string
  pr_reportedBy :: string
  pr_type :: string
  pr_priority :: string
  pr_description :: string
  pr_location :: "string option"
  pr_photos :: "string list option"
  pr_status :: string
  pr_resolvedBy :: "string option"
  pr_resolvedAt :: "timestamp option"
  pr_createdAt :: "timestamp option"

text \<open>The WebSocket message type \<open>WSMessage = {type, data}\<close>, one constructor per
  \<open>type\<close>, carrying the \<open>data\<close> object the routes build for it.\<close>

datatype WSMessage =
    Room_status_update string string "room option"
  | Timer_update string "cleaningSession option"
  | Checklist_update string checklistCompletion
  | Problem_report string problemReport

section \<open>Server state\<close>

text \<open>
  A WebSocket is an object with an identity and a mutable \<open>readyState\<close>
  (0 CONNECTING, 1 OPEN, 2 CLOSING, 3 CLOSED). \<open>wsClients\<close> is a JavaScript
  \<open>Set\<close>: it iterates in insertion order and holds each socket at most once.
\<close>

record webSocket =
  ws_id :: nat
  ws_readyState :: nat

definition OPEN :: nat where
  "OPEN = 1"

record state =
  users :: "user list"
  rooms :: "room list"
  cleaningSessions :: "cleaningSession list"
  checklistTemplates :: "checklistTemplate list"
  checklistCompletions :: "checklistCompletion list"
  problemReports :: "problemReport list"
  wsClients :: "webSocket list"

text \<open>A timestamp as a JSON body carries it: the string that \<open>toISOString()\<close>
  makes of the instant. It is a string, not a \<open>Date\<close>.\<close>

datatype jsonDate = ISOString timestamp

text \<open>What a route throws into its \<open>catch\<close> block.\<close>

datatype db_error =
    UniqueViolation
  | ForeignKeyViolation
  | InvalidEnumValue
  | IntegerOutOfRange
  | NoValuesToSet

datatype error =
    ZodError
  | DbError db_error
  | TypeError

text \<open>The JSON body of a response. \<open>res.json(undefined)\<close> is \<open>None\<close> under the
  entity's constructor.\<close>

datatype body =
    Message string
  | InvalidStatusValue
  | RoomJson "room option"
  | SessionJson "cleaningSession option"
  | CompletionJson checklistCompletion
  | ReportJson problemReport

record response =
  res_status :: nat
  res_body :: body

type_synonym delivery = "nat \<times> WSMessage"

type_synonym outcome = "state \<times> response \<times> delivery list"

section \<open>Event broadcaster (server routes: broadcast, wss.on('connection'))\<close>

definition broadcast :: "webSocket list \<Rightarrow> WSMessage \<Rightarrow> delivery list" where
  "broadcast clients message =
     map (\<lambda>client. (ws_id client, message))
       (filter (\<lambda>client. ws_readyState client = OPEN) clients)"

definition wsClients_add :: "webSocket \<Rightarrow> webSocket list \<Rightarrow> webSocket list" where
  "wsClients_add ws clients =
     (if ws_id ws \<in> set (map ws_id clients) then clients else clients @ [ws])"

definition wsClients_delete :: "nat \<Rightarrow> webSocket list \<Rightarrow> webSocket list" where
  "wsClients_delete i clients = filter (\<lambda>c. ws_id c \<noteq> i) clients"

definition on_connection :: "webSocket \<Rightarrow> state \<Rightarrow> state" where
  "on_connection ws s = s\<lparr>wsClients := wsClients_add ws (wsClients s)\<rparr>"

definition on_close :: "nat \<Rightarrow> state \<Rightarrow> state" where
  "on_close i s = s\<lparr>wsClients := wsClients_delete i (wsClients s)\<rparr>"

definition on_error :: "nat \<Rightarrow> state \<Rightarrow> state" where
  "on_error i s = s\<lparr>wsClients := wsClients_delete i (wsClients s)\<rparr>"

section \<open>The outside world of one request\<close>

text \<open>
  What a request reads from outside the server state: the clock (\<open>Date.now()\<close>,
  \<open>new Date()\<close>, the database's \<open>now()\<close>), the identifier the database draws
  for an inserted row (\<open>gen_random_uuid()\<close>), and the identity provider's answer to
  a refresh-token grant (\<open>None\<close> when the grant throws).
\<close>

record claims =
  claim_sub :: "string option"
  claim_email :: "string option"
  claim_role :: "string option"
  claim_exp :: "int option"

record tokens =
  tk_claims :: "claims option"
  tk_access_token :: "string option"
  tk_refresh_token :: "string option"

record world =
  now :: timestamp
  newId :: string
  refreshTokenGrant :: "string \<Rightarrow> tokens option"

section \<open>Access control gate (server/replitAuth.ts)\<close>

text \<open>\<open>req.user\<close>, the session object that passport deserialises; \<open>None\<close> when the
  request carries no login session, which is when \<open>req.isAuthenticated()\<close> is false.\<close>

record reqUser =
  ru_claims :: "claims option"
  ru_access_token :: "string option"
  ru_refresh_token :: "string option"
  ru_expires_at :: "int option"

definition updateUserSession :: "reqUser \<Rightarrow> tokens \<Rightarrow> reqUser" where
  "updateUserSession user tk =
     user\<lparr>ru_claims := tk_claims tk,
          ru_access_token := tk_access_token tk,
          ru_refresh_token := tk_refresh_token tk,
          ru_expires_at := (case tk_claims tk of None \<Rightarrow> None | Some c \<Rightarrow> claim_exp c)\<rparr>"

definition unauthorized :: response where
  "unauthorized = \<lparr>res_status = 401, res_body = Message ''Unauthorized''\<rparr>"

text \<open>\<open>isAuthenticated\<close>: \<open>Inl\<close> is the response that ends the request, \<open>Inr\<close> the
  (possibly refreshed) \<open>req.user\<close> that \<open>next()\<close> continues with. A missing value and
  the falsy values \<open>0\<close> and \<open>""\<close> all fail the \<open>!x\<close> tests.\<close>

definition isAuthenticated :: "world \<Rightarrow> reqUser option \<Rightarrow> response + reqUser" where
  "isAuthenticated w ru =
     (case ru of
        None \<Rightarrow> Inl unauthorized
      | Some user \<Rightarrow>
          (case ru_expires_at user of
             None \<Rightarrow> Inl unauthorized
           | Some expires_at \<Rightarrow>
               if expires_at = 0 then Inl unauthorized
               else if now w div 1000 \<le> expires_at then Inr user
               else
                 (case ru_refresh_token user of
                    None \<Rightarrow> Inl unauthorized
                  | Some refreshToken \<Rightarrow>
                      if refreshToken = [] then Inl unauthorized
                      else
                        (case refreshTokenGrant w refreshToken of
                           None \<Rightarrow> Inl unauthorized
                         | Some tokenResponse \<Rightarrow> Inr (updateUserSession user tokenResponse)))))"

definition getUser :: "state \<Rightarrow> string \<Rightarrow> user option" where
  "getUser s i = find (\<lambda>u. user_id u = i) (users s)"

text \<open>\<open>req.user?.claims?.sub\<close>\<close>

definition claims_sub :: "reqUser \<Rightarrow> string option" where
  "claims_sub user = (case ru_claims user of None \<Rightarrow> None | Some c \<Rightarrow> claim_sub c)"

text \<open>\<open>requireRole(...allowedRoles)\<close>: \<open>Inl\<close> is the rejection, \<open>Inr\<close> the
  \<open>req.currentUser\<close> that the route runs with.\<close>

definition requireRole :: "string list \<Rightarrow> state \<Rightarrow> reqUser \<Rightarrow> response + user" where
  "requireRole allowedRoles s ru =
     (case claims_sub ru of
        None \<Rightarrow> Inl unauthorized
      | Some userId \<Rightarrow>
          if userId = [] then Inl unauthorized
          else
            (case getUser s userId of
               None \<Rightarrow> Inl \<lparr>res_status = 403, res_body = Message ''Insufficient permissions''\<rparr>
             | Some user \<Rightarrow>
                 if user_role user \<in> set allowedRoles then Inr user
                 else Inl \<lparr>res_status = 403, res_body = Message ''Insufficient permissions''\<rparr>))"

section \<open>Storage (DatabaseStorage)\<close>

text \<open>
  The database keeps what the schema declares: primary keys are unique, a foreign key
  names an existing row, an enum column holds a declared label, an \<open>integer\<close> fits
  32 bits. A statement that breaks one of these throws and changes nothing. Values are
  checked when the statement is bound, keys when a row is written: an update that
  matches no row can only fail on its values.
\<close>

definition int4 :: "int \<Rightarrow> bool" where
  "int4 n \<longleftrightarrow> - 2147483648 \<le> n \<and> n \<le> 2147483647"

definition int4_opt :: "int option \<Rightarrow> bool" where
  "int4_opt v = (case v of None \<Rightarrow> True | Some n \<Rightarrow> int4 n)"

definition room_ids :: "state \<Rightarrow> string set" where
  "room_ids s = set (map room_id (rooms s))"

definition user_ids :: "state \<Rightarrow> string set" where
  "user_ids s = set (map user_id (users s))"

text \<open>A foreign key that is null or not written is not checked.\<close>

definition fk_opt :: "string set \<Rightarrow> string option \<Rightarrow> bool" where
  "fk_opt ids v = (case v of None \<Rightarrow> True | Some i \<Rightarrow> i \<in> ids)"

definition set_status :: "timestamp \<Rightarrow> string \<Rightarrow> room \<Rightarrow> room" where
  "set_status t status r = r\<lparr>room_status := status, room_updatedAt := Some t\<rparr>"

definition updateRoomStatus ::
  "world \<Rightarrow> string \<Rightarrow> string \<Rightarrow> state \<Rightarrow> db_error + (state \<times> room option)" where
  "updateRoomStatus w roomId status s =
     (if status \<notin> set roomStatusEnum then Inl InvalidEnumValue
      else
        let rooms' = map (\<lambda>r. if room_id r = roomId then set_status (now w) status r else r) (rooms s)
        in Inr (s\<lparr>rooms := rooms'\<rparr>, find (\<lambda>r. room_id r = roomId) rooms'))"

text \<open>\<open>InsertCleaningSession\<close>, the parsed body of a start request. An optional
  column is \<open>None\<close> when the key is absent; a nullable one may also be given as null.\<close>

record insertCleaningSession =
  ics_roomId :: string
  ics_housekeeperId :: string
  ics_startTime :: timestamp
  ics_endTime :: "timestamp option"
  ics_pausedTime :: "int option option"
  ics_totalTime :: "int option option"
  ics_status :: "string option"

definition or_default :: "'a \<Rightarrow> 'a option \<Rightarrow> 'a" where
  "or_default d v = (case v of None \<Rightarrow> d | Some x \<Rightarrow> x)"

definition new_session :: "world \<Rightarrow> insertCleaningSession \<Rightarrow> cleaningSession" where
  "new_session w d =
     \<lparr>cs_id = newId w,
      cs_roomId = ics_roomId d,
      cs_housekeeperId = ics_housekeeperId d,
      cs_startTime = ics_startTime d,
      cs_endTime = ics_endTime d,
      cs_pausedTime = or_default (Some 0) (ics_pausedTime d),
      cs_totalTime = or_default None (ics_totalTime d),
      cs_status = or_default ''active'' (ics_status d),
      cs_createdAt = Some (now w)\<rparr>"

definition startCleaningSession ::
  "world \<Rightarrow> insertCleaningSession \<Rightarrow> state \<Rightarrow> db_error + (state \<times> cleaningSession)" where
  "startCleaningSession w d s =
     (let session = new_session w d in
      if \<not> int4_opt (cs_pausedTime session) \<or> \<not> int4_opt (cs_totalTime session)
        then Inl IntegerOutOfRange
      else if cs_id session \<in> set (map cs_id (cleaningSessions s)) then Inl UniqueViolation
      else if cs_roomId session \<notin> room_ids s \<or> cs_housekeeperId session \<notin> user_ids s
        then Inl ForeignKeyViolation
      else Inr (s\<lparr>cleaningSessions := cleaningSessions s @ [session]\<rparr>, session))"

text \<open>\<open>ORDER BY created_at DESC LIMIT 1\<close>: PostgreSQL sorts NULL before every value
  in descending order. Among rows with equal keys its choice is unspecified; the model
  takes the earliest row of the table.\<close>

definition created_le :: "timestamp option \<Rightarrow> timestamp option \<Rightarrow> bool" where
  "created_le a b =
     (case b of None \<Rightarrow> True
      | Some tb \<Rightarrow> (case a of None \<Rightarrow> False | Some ta \<Rightarrow> ta \<le> tb))"

fun first_desc :: "cleaningSession list \<Rightarrow> cleaningSession option" where
  "first_desc [] = None"
| "first_desc (x # xs) =
     (case first_desc xs of
        None \<Rightarrow> Some x
      | Some y \<Rightarrow> if created_le (cs_createdAt y) (cs_createdAt x) then Some x else Some y)"

definition is_open :: "string \<Rightarrow> cleaningSession \<Rightarrow> bool" where
  "is_open roomId x \<longleftrightarrow>
     cs_roomId x = roomId \<and> (cs_status x = ''active'' \<or> cs_status x = ''paused'')"

definition getActiveCleaningSession :: "string \<Rightarrow> state \<Rightarrow> cleaningSession option" where
  "getActiveCleaningSession roomId s = first_desc (filter (is_open roomId) (cleaningSessions s))"

text \<open>
  The body of an update request, \<open>req.body\<close> as the route hands it to \<open>set\<close>,
  unparsed: \<open>None\<close> is an absent key, which \<open>set\<close> leaves alone. A timestamp key
  that is present and not null holds a JSON value, never a \<open>Date\<close>; the timestamp
  column's encoder calls \<open>toISOString()\<close> on it and throws a TypeError, before any
  statement reaches the database. (The start route converts its \<open>startTime\<close> in the
  insert schema; the update routes have no schema.)
\<close>

record cleaningSessionUpdates =
  csu_id :: "string option"
  csu_roomId :: "string option"
  csu_housekeeperId :: "string option"
  csu_startTime :: "jsonDate option"
  csu_endTime :: "jsonDate option option"
  csu_pausedTime :: "int option option"
  csu_totalTime :: "int option option"
  csu_status :: "string option"
  csu_createdAt :: "jsonDate option option"

definition no_updates :: cleaningSessionUpdates where
  "no_updates =
     \<lparr>csu_id = None, csu_roomId = None, csu_housekeeperId = None, csu_startTime = None,
      csu_endTime = None, csu_pausedTime = None, csu_totalTime = None, csu_status = None,
      csu_createdAt = None\<rparr>"

text \<open>Whether the encoder throws on a timestamp key, and what an update that got past
  it writes to a nullable timestamp column: null when the key is there, since a value
  has thrown.\<close>

definition date_given :: "jsonDate option option \<Rightarrow> bool" where
  "date_given v = (case v of Some (Some d) \<Rightarrow> True | _ \<Rightarrow> False)"

definition null_or_kept :: "timestamp option \<Rightarrow> jsonDate option option \<Rightarrow> timestamp option" where
  "null_or_kept old v = (case v of None \<Rightarrow> old | Some d \<Rightarrow> None)"

definition set_session :: "cleaningSessionUpdates \<Rightarrow> cleaningSession \<Rightarrow> cleaningSession" where
  "set_session u x =
     \<lparr>cs_id = or_default (cs_id x) (csu_id u),
      cs_roomId = or_default (cs_roomId x) (csu_roomId u),
      cs_housekeeperId = or_default (cs_housekeeperId x) (csu_housekeeperId u),
      cs_startTime = cs_startTime x,
      cs_endTime = null_or_kept (cs_endTime x) (csu_endTime u),
      cs_pausedTime = or_default (cs_pausedTime x) (csu_pausedTime u),
      cs_totalTime = or_default (cs_totalTime x) (csu_totalTime u),
      cs_status = or_default (cs_status x) (csu_status u),
      cs_createdAt = null_or_kept (cs_createdAt x) (csu_createdAt u)\<rparr>"

definition updateCleaningSession ::
  "string \<Rightarrow> cleaningSessionUpdates \<Rightarrow> state \<Rightarrow> error + (state \<times> cleaningSession option)" where
  "updateCleaningSession sessionId u s =
     (if u = no_updates then Inl (DbError NoValuesToSet)
      else if csu_startTime u \<noteq> None \<or> date_given (csu_endTime u) \<or> date_given (csu_createdAt u)
        then Inl TypeError
      else if \<not> int4_opt (or_default None (csu_pausedTime u))
              \<or> \<not> int4_opt (or_default None (csu_totalTime u))
        then Inl (DbError IntegerOutOfRange)
      else
        (case find (\<lambda>x. cs_id x = sessionId) (cleaningSessions s) of
           None \<Rightarrow> Inr (s, None)
         | Some old \<Rightarrow>
             let session = set_session u old in
             if cs_id session \<noteq> sessionId \<and> cs_id session \<in> set (map cs_id (cleaningSessions s))
               then Inl (DbError UniqueViolation)
             else if \<not> fk_opt (room_ids s) (csu_roomId u)
                     \<or> \<not> fk_opt (user_ids s) (csu_housekeeperId u)
               then Inl (DbError ForeignKeyViolation)
             else
               Inr (s\<lparr>cleaningSessions :=
                        map (\<lambda>x. if cs_id x = sessionId then set_session u x else x)
                          (cleaningSessions s)\<rparr>,
                    Some session)))"

text \<open>Checklist completions. \<open>completedItems\<close> is the JSON object of item id to
  boolean that the client sends.\<close>

record insertChecklistCompletion =
  icc_roomId :: string
  icc_templateId :: string
  icc_housekeeperId :: string
  icc_supervisorId :: "string option option"
  icc_completedItems :: "(string \<times> bool) list option"
  icc_supervisorSignature :: "string option option"
  icc_isCompleted :: "bool option option"
  icc_completedAt :: "timestamp option option"

definition template_ids :: "state \<Rightarrow> string set" where
  "template_ids s = set (map ct_id (checklistTemplates s))"

definition new_completion :: "world \<Rightarrow> insertChecklistCompletion \<Rightarrow> checklistCompletion" where
  "new_completion w d =
     \<lparr>cc_id = newId w,
      cc_roomId = icc_roomId d,
      cc_templateId = icc_templateId d,
      cc_housekeeperId = icc_housekeeperId d,
      cc_supervisorId = or_default None (icc_supervisorId d),
      cc_completedItems = or_default [] (icc_completedItems d),
      cc_supervisorSignature = or_default None (icc_supervisorSignature d),
      cc_isCompleted = or_default (Some False) (icc_isCompleted d),
      cc_completedAt = or_default None (icc_completedAt d),
      cc_createdAt = Some (now w)\<rparr>"

definition completion_fks :: "state \<Rightarrow> checklistCompletion \<Rightarrow> bool" where
  "completion_fks s c \<longleftrightarrow>
     cc_roomId c \<in> room_ids s \<and> cc_templateId c \<in> template_ids s
     \<and> cc_housekeeperId c \<in> user_ids s \<and> fk_opt (user_ids s) (cc_supervisorId c)"

definition saveChecklistCompletion ::
  "world \<Rightarrow> insertChecklistCompletion \<Rightarrow> state \<Rightarrow> db_error + (state \<times> checklistCompletion)" where
  "saveChecklistCompletion w d s =
     (let completion = new_completion w d in
      if cc_id completion \<in> set (map cc_id (checklistCompletions s)) then Inl UniqueViolation
      else if \<not> completion_fks s completion then Inl ForeignKeyViolation
      else Inr (s\<lparr>checklistCompletions := checklistCompletions s @ [completion]\<rparr>, completion))"

record checklistCompletionUpdates =
  ccu_id :: "string option"
  ccu_roomId :: "string option"
  ccu_templateId :: "string option"
  ccu_housekeeperId :: "string option"
  ccu_supervisorId :: "string option option"
  ccu_completedItems :: "(string \<times> bool) list option"
  ccu_supervisorSignature :: "string option option"
  ccu_isCompleted :: "bool option option"
  ccu_completedAt :: "jsonDate option option"
  ccu_createdAt :: "jsonDate option option"

definition no_completion_updates :: checklistCompletionUpdates where
  "no_completion_updates =
     \<lparr>ccu_id = None, ccu_roomId = None, ccu_templateId = None, ccu_housekeeperId = None,
      ccu_supervisorId = None, ccu_completedItems = None, ccu_supervisorSignature = None,
      ccu_isCompleted = None, ccu_completedAt = None, ccu_createdAt = None\<rparr>"

definition set_completion ::
  "checklistCompletionUpdates \<Rightarrow> checklistCompletion \<Rightarrow> checklistCompletion" where
  "set_completion u c =
     \<lparr>cc_id = or_default (cc_id c) (ccu_id u),
      cc_roomId = or_default (cc_roomId c) (ccu_roomId u),
      cc_templateId = or_default (cc_templateId c) (ccu_templateId u),
      cc_housekeeperId = or_default (cc_housekeeperId c) (ccu_housekeeperId u),
      cc_supervisorId = or_default (cc_supervisorId c) (ccu_supervisorId u),
      cc_completedItems = or_default (cc_completedItems c) (ccu_completedItems u),
      cc_supervisorSignature = or_default (cc_supervisorSignature c) (ccu_supervisorSignature u),
      cc_isCompleted = or_default (cc_isCompleted c) (ccu_isCompleted u),
      cc_completedAt = null_or_kept (cc_completedAt c) (ccu_completedAt u),
      cc_createdAt = null_or_kept (cc_createdAt c) (ccu_createdAt u)\<rparr>"

definition updateChecklistCompletion ::
  "string \<Rightarrow> checklistCompletionUpdates \<Rightarrow> state
     \<Rightarrow> error + (state \<times> checklistCompletion option)" where
  "updateChecklistCompletion completionId u s =
     (if u = no_completion_updates then Inl (DbError NoValuesToSet)
      else if date_given (ccu_completedAt u) \<or> date_given (ccu_createdAt u) then Inl TypeError
      else
        (case find (\<lambda>c. cc_id c = completionId) (checklistCompletions s) of
           None \<Rightarrow> Inr (s, None)
         | Some old \<Rightarrow>
             let completion = set_completion u old in
             if cc_id completion \<noteq> completionId
                \<and> cc_id completion \<in> set (map cc_id (checklistCompletions s))
               then Inl (DbError UniqueViolation)
             else if \<not> fk_opt (room_ids s) (ccu_roomId u)
                     \<or> \<not> fk_opt (template_ids s) (ccu_templateId u)
                     \<or> \<not> fk_opt (user_ids s) (ccu_housekeeperId u)
                     \<or> \<not> fk_opt (user_ids s) (or_default None (ccu_supervisorId u))
               then Inl (DbError ForeignKeyViolation)
             else
               Inr (s\<lparr>checklistCompletions :=
                        map (\<lambda>c. if cc_id c = completionId then set_completion u c else c)
                          (checklistCompletions s)\<rparr>,
                    Some completion)))"

text \<open>Problem reports.\<close>

record insertProblemReport =
  ipr_roomId :: string
  ipr_reportedBy :: string
  ipr_type :: string
  ipr_priority :: "string option"
  ipr_description :: string
  ipr_location :: "string option option"
  ipr_photos :: "string list option option"
  ipr_status :: "string option"
  ipr_resolvedBy :: "string option option"
  ipr_resolvedAt :: "timestamp option option"

definition new_report :: "world \<Rightarrow> insertProblemReport \<Rightarrow> problemReport" where
  "new_report w d =
     \<lparr>pr_id = newId w,
      pr_roomId = ipr_roomId d,
      pr_reportedBy = ipr_reportedBy d,
      pr_type = ipr_type d,
      pr_priority = or_default ''media'' (ipr_priority d),
      pr_description = ipr_description d,
      pr_location = or_default None (ipr_location d),
      pr_photos = or_default (Some []) (ipr_photos d),
      pr_status = or_default ''reported'' (ipr_status d),
      pr_resolvedBy = or_default None (ipr_resolvedBy d),
      pr_resolvedAt = or_default None (ipr_resolvedAt d),
      pr_createdAt = Some (now w)\<rparr>"

definition createProblemReport ::
  "world \<Rightarrow> insertProblemReport \<Rightarrow> state \<Rightarrow> db_error + (state \<times> problemReport)" where
  "createProblemReport w d s =
     (let report = new_report w d in
      if pr_type report \<notin> set problemTypeEnum \<or> pr_priority report \<notin> set priorityEnum
        then Inl InvalidEnumValue
      else if pr_id report \<in> set (map pr_id (problemReports s)) then Inl UniqueViolation
      else if pr_roomId report \<notin> room_ids s \<or> pr_reportedBy report \<notin> user_ids s
              \<or> \<not> fk_opt (user_ids s) (pr_resolvedBy report)
        then Inl ForeignKeyViolation
      else Inr (s\<lparr>problemReports := problemReports s @ [report]\<rparr>, report))"

section \<open>Request bodies and their validation (zod)\<close>

text \<open>
  A request body is a JSON object. Each key is modelled at the type its column has:
  \<open>None\<close> for a key that is absent (or, for a required key, not of that type). A
  timestamp column without a string transform is validated by \<open>z.date()\<close>, which no
  JSON value passes: such a key may only be absent or null.
\<close>

definition statusSchema_parse :: "string option \<Rightarrow> error + string" where
  "statusSchema_parse b =
     (case b of
        None \<Rightarrow> Inl ZodError
      | Some status \<Rightarrow>
          if status \<in> set [''dirty'', ''clean'', ''occupied'', ''cleaning'', ''inspection'', ''approved'']
          then Inr status else Inl ZodError)"

record cleaningSessionBody =
  csb_roomId :: "string option"
  csb_housekeeperId :: "string option"
  csb_startTime :: "timestamp option"
  csb_endTime :: "timestamp option"
  csb_pausedTime :: "int option option"
  csb_totalTime :: "int option option"
  csb_status :: "string option"

definition insertCleaningSessionSchema_parse ::
  "cleaningSessionBody \<Rightarrow> error + insertCleaningSession" where
  "insertCleaningSessionSchema_parse b =
     (case (csb_roomId b, csb_housekeeperId b, csb_startTime b) of
        (Some roomId, Some housekeeperId, Some startTime) \<Rightarrow>
          Inr \<lparr>ics_roomId = roomId, ics_housekeeperId = housekeeperId,
               ics_startTime = startTime, ics_endTime = csb_endTime b,
               ics_pausedTime = csb_pausedTime b, ics_totalTime = csb_totalTime b,
               ics_status = csb_status b\<rparr>
      | _ \<Rightarrow> Inl ZodError)"

record checklistCompletionBody =
  ccb_roomId :: "string option"
  ccb_templateId :: "string option"
  ccb_housekeeperId :: "string option"
  ccb_supervisorId :: "string option option"
  ccb_completedItems :: "(string \<times> bool) list option"
  ccb_supervisorSignature :: "string option option"
  ccb_isCompleted :: "bool option option"
  ccb_completedAt :: "string option option"

definition no_date :: "string option option \<Rightarrow> (timestamp option option) option" where
  "no_date v =
     (case v of None \<Rightarrow> Some None | Some None \<Rightarrow> Some (Some None) | Some (Some x) \<Rightarrow> None)"

definition insertChecklistCompletionSchema_parse ::
  "checklistCompletionBody \<Rightarrow> error + insertChecklistCompletion" where
  "insertChecklistCompletionSchema_parse b =
     (case (ccb_roomId b, ccb_templateId b, ccb_housekeeperId b, no_date (ccb_completedAt b)) of
        (Some roomId, Some templateId, Some housekeeperId, Some completedAt) \<Rightarrow>
          Inr \<lparr>icc_roomId = roomId, icc_templateId = templateId,
               icc_housekeeperId = housekeeperId, icc_supervisorId = ccb_supervisorId b,
               icc_completedItems = ccb_completedItems b,
               icc_supervisorSignature = ccb_supervisorSignature b,
               icc_isCompleted = ccb_isCompleted b, icc_completedAt = completedAt\<rparr>
      | _ \<Rightarrow> Inl ZodError)"

record problemReportBody =
  prb_roomId :: "string option"
  prb_reportedBy :: "string option"
  prb_type :: "string option"
  prb_priority :: "string option"
  prb_description :: "string option"
  prb_location :: "string option option"
  prb_photos :: "string list option option"
  prb_status :: "string option"
  prb_resolvedBy :: "string option option"
  prb_resolvedAt :: "string option option"

definition insertProblemReportSchema_parse :: "problemReportBody \<Rightarrow> error + insertProblemReport" where
  "insertProblemReportSchema_parse b =
     (case (prb_roomId b, prb_reportedBy b, prb_type b, prb_description b,
            no_date (prb_resolvedAt b)) of
        (Some roomId, Some reportedBy, Some type, Some description, Some resolvedAt) \<Rightarrow>
          if type \<in> set problemTypeEnum \<and> or_default ''media'' (prb_priority b) \<in> set priorityEnum
          then
            Inr \<lparr>ipr_roomId = roomId, ipr_reportedBy = reportedBy, ipr_type = type,
                 ipr_priority = prb_priority b, ipr_description = description,
                 ipr_location = prb_location b, ipr_photos = prb_photos b,
                 ipr_status = prb_status b, ipr_resolvedBy = prb_resolvedBy b,
                 ipr_resolvedAt = resolvedAt\<rparr>
          else Inl ZodError
      | _ \<Rightarrow> Inl ZodError)"

section \<open>Routes (registerRoutes)\<close>

text \<open>
  A route maps the state to the new state, the response and the deliveries made to
  sockets, in that order. A \<open>catch\<close> block answers with its error response; what the
  \<open>try\<close> block had already written stays written (there is no transaction).
\<close>

definition failed :: "string \<Rightarrow> response" where
  "failed m = \<lparr>res_status = 500, res_body = Message m\<rparr>"

definition json :: "body \<Rightarrow> response" where
  "json b = \<lparr>res_status = 200, res_body = b\<rparr>"

text \<open>\<open>PATCH /api/rooms/:id/status\<close>, behind \<open>requireRole("manager", "supervisor")\<close>\<close>

definition patch_room_status ::
  "world \<Rightarrow> reqUser \<Rightarrow> string \<Rightarrow> string option \<Rightarrow> state \<Rightarrow> outcome" where
  "patch_room_status w ru roomId b s =
     (case requireRole [''manager'', ''supervisor''] s ru of
        Inl rejection \<Rightarrow> (s, rejection, [])
      | Inr currentUser \<Rightarrow>
          (case statusSchema_parse b of
             Inl e \<Rightarrow> (s, \<lparr>res_status = 400, res_body = InvalidStatusValue\<rparr>, [])
           | Inr status \<Rightarrow>
               (case updateRoomStatus w roomId status s of
                  Inl e \<Rightarrow> (s, failed ''Failed to update room status'', [])
                | Inr (s', room) \<Rightarrow>
                    (s', json (RoomJson room),
                     broadcast (wsClients s') (Room_status_update roomId status room)))))"

text \<open>\<open>POST /api/cleaning-sessions\<close>\<close>

definition post_cleaning_sessions :: "world \<Rightarrow> cleaningSessionBody \<Rightarrow> state \<Rightarrow> outcome" where
  "post_cleaning_sessions w b s =
     (case insertCleaningSessionSchema_parse b of
        Inl e \<Rightarrow> (s, failed ''Failed to start cleaning session'', [])
      | Inr sessionData \<Rightarrow>
          (case startCleaningSession w sessionData s of
             Inl e \<Rightarrow> (s, failed ''Failed to start cleaning session'', [])
           | Inr (s1, session) \<Rightarrow>
               (case updateRoomStatus w (ics_roomId sessionData) ''cleaning'' s1 of
                  Inl e \<Rightarrow> (s1, failed ''Failed to start cleaning session'', [])
                | Inr (s2, room) \<Rightarrow>
                    (s2, json (SessionJson (Some session)),
                     broadcast (wsClients s2) (Timer_update ''start'' (Some session))))))"

text \<open>\<open>PATCH /api/cleaning-sessions/:id\<close>\<close>

definition patch_cleaning_sessions ::
  "string \<Rightarrow> cleaningSessionUpdates \<Rightarrow> state \<Rightarrow> outcome" where
  "patch_cleaning_sessions sessionId updates s =
     (case updateCleaningSession sessionId updates s of
        Inl e \<Rightarrow> (s, failed ''Failed to update cleaning session'', [])
      | Inr (s', session) \<Rightarrow>
          (s', json (SessionJson session),
           broadcast (wsClients s') (Timer_update ''update'' session)))"

text \<open>\<open>GET /api/cleaning-sessions/active/:roomId\<close>\<close>

definition get_active_cleaning_session :: "string \<Rightarrow> state \<Rightarrow> outcome" where
  "get_active_cleaning_session roomId s =
     (s, json (SessionJson (getActiveCleaningSession roomId s)), [])"

text \<open>\<open>POST /api/checklist-completions\<close>\<close>

definition post_checklist_completions ::
  "world \<Rightarrow> checklistCompletionBody \<Rightarrow> state \<Rightarrow> outcome" where
  "post_checklist_completions w b s =
     (case insertChecklistCompletionSchema_parse b of
        Inl e \<Rightarrow> (s, failed ''Failed to save checklist completion'', [])
      | Inr completionData \<Rightarrow>
          (case saveChecklistCompletion w completionData s of
             Inl e \<Rightarrow> (s, failed ''Failed to save checklist completion'', [])
           | Inr (s', completion) \<Rightarrow>
               (s', json (CompletionJson completion),
                broadcast (wsClients s') (Checklist_update ''save'' completion))))"

text \<open>\<open>PATCH /api/checklist-completions/:id\<close>. Reading \<open>completion.isCompleted\<close> of
  an update that matched no row throws a TypeError. A signature is truthy when it is a
  non-empty string.\<close>

definition truthy :: "string option \<Rightarrow> bool" where
  "truthy v = (case v of None \<Rightarrow> False | Some x \<Rightarrow> x \<noteq> [])"

definition patch_checklist_completions ::
  "world \<Rightarrow> string \<Rightarrow> checklistCompletionUpdates \<Rightarrow> state \<Rightarrow> outcome" where
  "patch_checklist_completions w completionId updates s =
     (case updateChecklistCompletion completionId updates s of
        Inl e \<Rightarrow> (s, failed ''Failed to update checklist completion'', [])
      | Inr (s1, None) \<Rightarrow> (s1, failed ''Failed to update checklist completion'', [])
      | Inr (s1, Some completion) \<Rightarrow>
          if cc_isCompleted completion = Some True \<and> truthy (cc_supervisorSignature completion)
          then
            (case updateRoomStatus w (cc_roomId completion) ''clean'' s1 of
               Inl e \<Rightarrow> (s1, failed ''Failed to update checklist completion'', [])
             | Inr (s2, room) \<Rightarrow>
                 (s2, json (CompletionJson completion),
                  broadcast (wsClients s2) (Checklist_update ''update'' completion)))
          else
            (s1, json (CompletionJson completion),
             broadcast (wsClients s1) (Checklist_update ''update'' completion)))"

text \<open>\<open>POST /api/problem-reports\<close>\<close>

definition post_problem_reports :: "world \<Rightarrow> problemReportBody \<Rightarrow> state \<Rightarrow> outcome" where
  "post_problem_reports w b s =
     (case insertProblemReportSchema_parse b of
        Inl e \<Rightarrow> (s, failed ''Failed to create problem report'', [])
      | Inr reportData \<Rightarrow>
          (case createProblemReport w reportData s of
             Inl e \<Rightarrow> (s, failed ''Failed to create problem report'', [])
           | Inr (s1, report) \<Rightarrow>
               (case updateRoomStatus w (ipr_roomId reportData) ''inspection'' s1 of
                  Inl e \<Rightarrow> (s1, failed ''Failed to create problem report'', [])
                | Inr (s2, room) \<Rightarrow>
                    (s2, json (ReportJson report),
                     broadcast (wsClients s2) (Problem_report ''create'' report)))))"

text \<open>The routes that write, and the active-session query, behind
  \<open>app.use('/api', isAuthenticated)\<close>.\<close>

datatype request =
    PATCH_rooms_status string "string option"
  | POST_cleaning_sessions cleaningSessionBody
  | PATCH_cleaning_sessions string cleaningSessionUpdates
  | GET_cleaning_sessions_active string
  | POST_checklist_completions checklistCompletionBody
  | PATCH_checklist_completions string checklistCompletionUpdates
  | POST_problem_reports problemReportBody

fun route :: "world \<Rightarrow> reqUser \<Rightarrow> request \<Rightarrow> state \<Rightarrow> outcome" where
  "route w ru (PATCH_rooms_status roomId b) s = patch_room_status w ru roomId b s"
| "route w ru (POST_cleaning_sessions b) s = post_cleaning_sessions w b s"
| "route w ru (PATCH_cleaning_sessions sessionId u) s = patch_cleaning_sessions sessionId u s"
| "route w ru (GET_cleaning_sessions_active roomId) s = get_active_cleaning_session roomId s"
| "route w ru (POST_checklist_completions b) s = post_checklist_completions w b s"
| "route w ru (PATCH_checklist_completions completionId u) s =
     patch_checklist_completions w completionId u s"
| "route w ru (POST_problem_reports b) s = post_problem_reports w b s"

definition api :: "world \<Rightarrow> reqUser option \<Rightarrow> request \<Rightarrow> state \<Rightarrow> outcome" where
  "api w ru req s =
     (case isAuthenticated w ru of
        Inl rejection \<Rightarrow> (s, rejection, [])
      | Inr user \<Rightarrow> route w user req s)"

text \<open>A run of the server: what happens to it, one event after the other. A request
  comes with its own outside world; a socket connects, changes its \<open>readyState\<close>,
  closes or fails.\<close>

datatype event =
    Request world "reqUser option" request
  | Connection webSocket
  | ReadyState nat nat
  | Close nat
  | Error nat

definition set_readyState :: "nat \<Rightarrow> nat \<Rightarrow> state \<Rightarrow> state" where
  "set_readyState i v s =
     s\<lparr>wsClients := map (\<lambda>c. if ws_id c = i then c\<lparr>ws_readyState := v\<rparr> else c) (wsClients s)\<rparr>"

fun step :: "event \<Rightarrow> state \<Rightarrow> state" where
  "step (Request w ru req) s = fst (api w ru req s)"
| "step (Connection ws) s = on_connection ws s"
| "step (ReadyState i v) s = set_readyState i v s"
| "step (Close i) s = on_close i s"
| "step (Error i) s = on_error i s"

fun run :: "event list \<Rightarrow> state \<Rightarrow> state" where
  "run [] s = s"
| "run (e # es) s = run es (step e s)"

section \<open>Client actions (room-card.tsx, timer-widget.tsx)\<close>

text \<open>The bodies the client's mutations send. \<open>t\<close> is the client's \<open>new Date()\<close>;
  the complete request carries it as \<open>now.toISOString()\<close>.\<close>

definition startCleaningMutation :: "timestamp \<Rightarrow> room \<Rightarrow> user \<Rightarrow> cleaningSessionBody" where
  "startCleaningMutation t room currentUser =
     \<lparr>csb_roomId = Some (room_id room), csb_housekeeperId = Some (user_id currentUser),
      csb_startTime = Some t, csb_endTime = None, csb_pausedTime = None,
      csb_totalTime = None, csb_status = Some ''active''\<rparr>"

definition pauseCleaningMutation :: cleaningSessionUpdates where
  "pauseCleaningMutation = no_updates\<lparr>csu_status := Some ''paused''\<rparr>"

text \<open>\<open>Math.floor((now.getTime() - start.getTime()) / 1000) + (session.pausedTime || 0)\<close>\<close>

definition totalTime :: "timestamp \<Rightarrow> cleaningSession \<Rightarrow> int" where
  "totalTime t session = (t - cs_startTime session) div 1000 + or_default 0 (cs_pausedTime session)"

definition completeCleaningMutation :: "timestamp \<Rightarrow> cleaningSession \<Rightarrow> cleaningSessionUpdates" where
  "completeCleaningMutation t session =
     no_updates\<lparr>csu_status := Some ''completed'', csu_endTime := Some (Some (ISOString t)),
                csu_totalTime := Some (Some (totalTime t session))\<rparr>"

section \<open>Observations used by the properties\<close>

text \<open>How many deliveries a socket received.\<close>

definition delivered_to :: "nat \<Rightarrow> delivery list \<Rightarrow> nat" where
  "delivered_to i ds = length (filter (\<lambda>d. fst d = i) ds)"

text \<open>The requests that write; the other one only reads.\<close>

fun is_mutation :: "request \<Rightarrow> bool" where
  "is_mutation (GET_cleaning_sessions_active roomId) = False"
| "is_mutation req = True"

text \<open>What a writing request makes of the sockets: one broadcast when it is answered
  200, nothing otherwise.\<close>

definition one_event :: "state \<Rightarrow> response \<Rightarrow> delivery list \<Rightarrow> bool" where
  "one_event s r ds \<longleftrightarrow>
     (if res_status r = 200 then \<exists>m. ds = broadcast (wsClients s) m else ds = [])"

text \<open>Whether the role gate lets a request through.\<close>

definition permitted :: "string list \<Rightarrow> state \<Rightarrow> reqUser \<Rightarrow> bool" where
  "permitted allowedRoles s ru = (case requireRole allowedRoles s ru of Inl r \<Rightarrow> False | Inr u \<Rightarrow> True)"

text \<open>The same request with another role written into the identity token's claims.\<close>

definition claiming :: "string option \<Rightarrow> reqUser \<Rightarrow> reqUser" where
  "claiming r ru = ru\<lparr>ru_claims := map_option (\<lambda>c. c\<lparr>claim_role := r\<rparr>) (ru_claims ru)\<rparr>"

text \<open>Every room's status is a label of the database's \<open>room_status\<close> enum.\<close>

definition status_valid :: "state \<Rightarrow> bool" where
  "status_valid s \<longleftrightarrow> (\<forall>r \<in> set (rooms s). room_status r \<in> set roomStatusEnum)"

section \<open>Sample data (initializeSampleData)\<close>

text \<open>Two of the sample users and room 101, with two sockets connected, the second
  one already closed; a logged-in request of a user; an outside world whose identity
  provider refuses every refresh.\<close>

definition maria :: user where
  "maria = \<lparr>user_id = ''u1'', user_name = Some ''Maria Silva'', user_email = Some ''maria@hotel.com'',
     user_firstName = None, user_lastName = None, user_profileImageUrl = None,
     user_role = ''manager'', user_createdAt = Some 0, user_updatedAt = Some 0\<rparr>"

definition ana :: user where
  "ana = \<lparr>user_id = ''u2'', user_name = Some ''Ana Costa'', user_email = Some ''ana@hotel.com'',
     user_firstName = None, user_lastName = None, user_profileImageUrl = None,
     user_role = ''housekeeper'', user_createdAt = Some 0, user_updatedAt = Some 0\<rparr>"

definition room101 :: room where
  "room101 = \<lparr>room_id = ''r101'', room_number = ''101'', room_floor = 1, room_type = ''standard'',
     room_status = ''dirty'', room_assignedTo = Some ''u2'', room_lastCleaned = None,
     room_priority = Some ''alta'', room_createdAt = Some 0, room_updatedAt = Some 0\<rparr>"

definition hotel :: state where
  "hotel = \<lparr>users = [maria, ana], rooms = [room101], cleaningSessions = [],
     checklistTemplates = [], checklistCompletions = [], problemReports = [],
     wsClients = [\<lparr>ws_id = 1, ws_readyState = 1\<rparr>, \<lparr>ws_id = 2, ws_readyState = 3\<rparr>]\<rparr>"

definition login :: "string \<Rightarrow> reqUser" where
  "login uid =
     \<lparr>ru_claims = Some \<lparr>claim_sub = Some uid, claim_email = None, claim_role = None,
                         claim_exp = Some 2000\<rparr>,
      ru_access_token = None, ru_refresh_token = None, ru_expires_at = Some 2000\<rparr>"

definition at :: "timestamp \<Rightarrow> string \<Rightarrow> world" where
  "at t i = \<lparr>now = t, newId = i, refreshTokenGrant = (\<lambda>_. None)\<rparr>"

text \<open>Room 101 being cleaned by Ana since instant 5000; the same session completed
  with a total of 60 seconds; and a room with three sessions: one active, a later one
  paused, the latest one completed.\<close>

definition session1 :: cleaningSession where
  "session1 = \<lparr>cs_id = ''s1'', cs_roomId = ''r101'', cs_housekeeperId = ''u2'',
     cs_startTime = 5000, cs_endTime = None, cs_pausedTime = Some 0, cs_totalTime = None,
     cs_status = ''active'', cs_createdAt = Some 5000\<rparr>"

definition cleaning :: state where
  "cleaning = hotel\<lparr>rooms := [room101\<lparr>room_status := ''cleaning'', room_updatedAt := Some 5000\<rparr>],
                    cleaningSessions := [session1]\<rparr>"

definition completed1 :: cleaningSession where
  "completed1 = session1\<lparr>cs_totalTime := Some 60, cs_status := ''completed''\<rparr>"

definition finished :: state where
  "finished = cleaning\<lparr>cleaningSessions := [completed1]\<rparr>"




text \<open>Two requests that the client does not send. One returns a paused session to
  \<open>active\<close>: the client has no resume action, and this is the update of the status
  alone, as its pause is. The other completes a session with a total of \<open>n\<close> seconds
  and no end time, so no timestamp is in its body.\<close>

definition resumeCleaning :: cleaningSessionUpdates where
  "resumeCleaning = no_updates\<lparr>csu_status := Some ''active''\<rparr>"

definition completeWithTotal :: "int \<Rightarrow> cleaningSessionUpdates" where
  "completeWithTotal n =
     no_updates\<lparr>csu_status := Some ''completed'', csu_totalTime := Some (Some n)\<rparr>"

section \<open>Event broadcaster: fan-out\<close>

lemma updateRoomStatus_wsClients:
  "updateRoomStatus w i st s = Inr (s', r) \<Longrightarrow> wsClients s' = wsClients s"
  by (auto simp: updateRoomStatus_def Let_def split: if_splits)

lemma startCleaningSession_wsClients:
  "startCleaningSession w d s = Inr (s', x) \<Longrightarrow> wsClients s' = wsClients s"
  by (auto simp: startCleaningSession_def Let_def split: if_splits)

lemma updateCleaningSession_wsClients:
  "updateCleaningSession i u s = Inr (s', x) \<Longrightarrow> wsClients s' = wsClients s"
  by (auto simp: updateCleaningSession_def Let_def split: if_splits option.splits)

lemma saveChecklistCompletion_wsClients:
  "saveChecklistCompletion w d s = Inr (s', x) \<Longrightarrow> wsClients s' = wsClients s"
  by (auto simp: saveChecklistCompletion_def Let_def split: if_splits)

lemma updateChecklistCompletion_wsClients:
  "updateChecklistCompletion i u s = Inr (s', x) \<Longrightarrow> wsClients s' = wsClients s"
  by (auto simp: updateChecklistCompletion_def Let_def split: if_splits option.splits)

lemma createProblemReport_wsClients:
  "createProblemReport w d s = Inr (s', x) \<Longrightarrow> wsClients s' = wsClients s"
  by (auto simp: createProblemReport_def Let_def split: if_splits)

lemma patch_room_status_event:
  "patch_room_status w ru i b s = (s', r, ds) \<Longrightarrow> one_event s r ds"
  unfolding patch_room_status_def one_event_def
  by (auto simp: json_def failed_def unauthorized_def requireRole_def
      dest!: updateRoomStatus_wsClients split: sum.splits option.splits if_splits; blast)

lemma post_cleaning_sessions_event:
  "post_cleaning_sessions w b s = (s', r, ds) \<Longrightarrow> one_event s r ds"
  unfolding post_cleaning_sessions_def one_event_def
  by (auto simp: json_def failed_def
      dest!: updateRoomStatus_wsClients startCleaningSession_wsClients split: sum.splits; blast)

lemma patch_cleaning_sessions_event:
  "patch_cleaning_sessions i u s = (s', r, ds) \<Longrightarrow> one_event s r ds"
  unfolding patch_cleaning_sessions_def one_event_def
  by (auto simp: json_def failed_def
      dest!: updateCleaningSession_wsClients split: sum.splits; blast)

lemma post_checklist_completions_event:
  "post_checklist_completions w b s = (s', r, ds) \<Longrightarrow> one_event s r ds"
  unfolding post_checklist_completions_def one_event_def
  by (auto simp: json_def failed_def
      dest!: saveChecklistCompletion_wsClients split: sum.splits; blast)

lemma patch_checklist_completions_event:
  "patch_checklist_completions w i u s = (s', r, ds) \<Longrightarrow> one_event s r ds"
  unfolding patch_checklist_completions_def one_event_def
  by (auto simp: json_def failed_def
      dest!: updateChecklistCompletion_wsClients updateRoomStatus_wsClients
      split: sum.splits option.splits if_splits; blast)

lemma post_problem_reports_event:
  "post_problem_reports w b s = (s', r, ds) \<Longrightarrow> one_event s r ds"
  unfolding post_problem_reports_def one_event_def
  by (auto simp: json_def failed_def
      dest!: createProblemReport_wsClients updateRoomStatus_wsClients split: sum.splits; blast)

lemma route_event:
  "is_mutation req \<Longrightarrow> route w ru req s = (s', r, ds) \<Longrightarrow> one_event s r ds"
  by (cases req)
    (auto dest: patch_room_status_event post_cleaning_sessions_event patch_cleaning_sessions_event
      post_checklist_completions_event patch_checklist_completions_event post_problem_reports_event)

lemma isAuthenticated_rejection:
  "isAuthenticated w ru = Inl r \<Longrightarrow> res_status r = 401"
  by (auto simp: isAuthenticated_def unauthorized_def split: option.splits if_splits)

lemma api_event:
  "is_mutation req \<Longrightarrow> api w ru req s = (s', r, ds) \<Longrightarrow> one_event s r ds"
  unfolding api_def
  by (auto split: sum.splits dest: route_event isAuthenticated_rejection simp: one_event_def)

lemma delivered_to_broadcast:
  "distinct (map ws_id clients) \<Longrightarrow> c \<in> set clients \<Longrightarrow>
   delivered_to (ws_id c) (broadcast clients m) = (if ws_readyState c = OPEN then 1 else 0)"
proof (induction clients)
  case Nil
  then show ?case by simp
next
  case (Cons a clients)
  then show ?case
    by (auto simp: delivered_to_def broadcast_def filter_map comp_def image_iff filter_empty_conv)
qed

lemma length_broadcast:
  "length (broadcast clients m) = length clients - length (filter (\<lambda>c. ws_readyState c \<noteq> OPEN) clients)"
  unfolding broadcast_def using sum_length_filter_compl[of "\<lambda>c. ws_readyState c = OPEN" clients]
  by simp


text \<open>
  Claim C4. With the connected sockets held once each, a mutation that succeeds (answers
  200) makes one broadcast: every socket of the set that is OPEN receives exactly one
  delivery, every other socket none, so the deliveries number the connected sockets
  less those not open (N, or N-1 with one of them closed). A mutation that is rejected
  or fails (any other status: 400, 401, 403, 500) delivers nothing.
\<close>

theorem broadcast_fan_out:
  assumes "distinct (map ws_id (wsClients s))"
    and "is_mutation req"
    and "api w ru req s = (s', r, ds)"
  shows "if res_status r = 200
         then (\<exists>m. ds = broadcast (wsClients s) m)
              \<and> (\<forall>c \<in> set (wsClients s).
                    delivered_to (ws_id c) ds = (if ws_readyState c = OPEN then 1 else 0))
              \<and> length ds = length (wsClients s)
                             - length (filter (\<lambda>c. ws_readyState c \<noteq> OPEN) (wsClients s))
         else ds = []"
proof (cases "res_status r = 200")
  case True
  with api_event [OF assms(2,3)] obtain m where m: "ds = broadcast (wsClients s) m"
    by (auto simp: one_event_def)
  show ?thesis
    using True m assms(1) by (auto simp: delivered_to_broadcast length_broadcast)
next
  case False
  with api_event [OF assms(2,3)] show ?thesis
    by (simp add: one_event_def)
qed

theorem broadcast_fan_out_witness:
  "distinct (map ws_id (wsClients hotel))
   \<and> is_mutation (PATCH_rooms_status ''r101'' (Some ''clean''))
   \<and> res_status (fst (snd (api (at 5000 ''x'') (Some (login ''u1'')) (PATCH_rooms_status ''r101'' (Some ''clean'')) hotel))) = 200
   \<and> map fst (snd (snd (api (at 5000 ''x'') (Some (login ''u1'')) (PATCH_rooms_status ''r101'' (Some ''clean'')) hotel))) = [1]
   \<and> snd (snd (api (at 5000 ''x'') (Some (login ''u2'')) (PATCH_rooms_status ''r101'' (Some ''clean'')) hotel)) = []"
proof -
  let ?w = "at 5000 ''x''" and ?req = "PATCH_rooms_status ''r101'' (Some ''clean'')"
  have d: "distinct (map ws_id (wsClients hotel))" by code_simp
  have m: "is_mutation ?req" by simp
  have ok: "res_status (fst (snd (api ?w (Some (login ''u1'')) ?req hotel))) = 200" by code_simp
  have no: "res_status (fst (snd (api ?w (Some (login ''u2'')) ?req hotel))) \<noteq> 200" by code_simp
  have cs: "wsClients hotel = [\<lparr>ws_id = 1, ws_readyState = 1\<rparr>, \<lparr>ws_id = 2, ws_readyState = 3\<rparr>]"
    by (simp add: hotel_def)
  from broadcast_fan_out [OF d m, of ?w "Some (login ''u1'')"
      "fst (api ?w (Some (login ''u1'')) ?req hotel)"
      "fst (snd (api ?w (Some (login ''u1'')) ?req hotel))"
      "snd (snd (api ?w (Some (login ''u1'')) ?req hotel))"] ok
  have a: "map fst (snd (snd (api ?w (Some (login ''u1'')) ?req hotel))) = [1]"
    by (auto simp: cs broadcast_def OPEN_def)
  from broadcast_fan_out [OF d m, of ?w "Some (login ''u2'')"
      "fst (api ?w (Some (login ''u2'')) ?req hotel)"
      "fst (snd (api ?w (Some (login ''u2'')) ?req hotel))"
      "snd (snd (api ?w (Some (login ''u2'')) ?req hotel))"] no
  have b: "snd (snd (api ?w (Some (login ''u2'')) ?req hotel)) = []"
    by simp
  show ?thesis using d m ok a b by simp
qed

section \<open>Access control gate: the role comes from the stored record\<close>

lemma claims_sub_claiming: "claims_sub (claiming r ru) = claims_sub ru"
  by (simp add: claims_sub_def claiming_def split: option.splits)

lemma requireRole_claiming:
  "requireRole allowedRoles s (claiming r ru) = requireRole allowedRoles s ru"
  by (simp add: requireRole_def claims_sub_claiming)

lemma route_sub:
  "claims_sub ru = claims_sub ru' \<Longrightarrow> route w ru req s = route w ru' req s"
  by (cases req) (simp_all add: patch_room_status_def requireRole_def)

lemma api_claiming:
  "api w (Some (claiming r1 ru)) req s = api w (Some (claiming r2 ru)) req s"
proof -
  have "(\<exists>x. isAuthenticated w (Some (claiming r1 ru)) = Inl x \<and> isAuthenticated w (Some (claiming r2 ru)) = Inl x)
      \<or> (\<exists>u1 u2. isAuthenticated w (Some (claiming r1 ru)) = Inr u1 \<and> isAuthenticated w (Some (claiming r2 ru)) = Inr u2
            \<and> claims_sub u1 = claims_sub u2)"
    by (auto simp: isAuthenticated_def claiming_def updateUserSession_def claims_sub_def
        split: option.splits)
  then show ?thesis
    by (auto simp: api_def dest: route_sub)
qed

text \<open>
  Claim C9. The gate reads the caller's identity (\<open>claims.sub\<close>) and then the role of
  the stored user record, never the role written in the token's claims: two requests
  that differ only in that claimed role get the same answer from \<open>requireRole\<close> and
  from every route behind it, and a request is let through exactly when the stored user
  of its identity has one of the allowed roles.
\<close>

theorem role_from_durable_record:
  "requireRole allowedRoles s (claiming r1 ru) = requireRole allowedRoles s (claiming r2 ru)
   \<and> api w (Some (claiming r1 ru)) req s = api w (Some (claiming r2 ru)) req s
   \<and> (permitted allowedRoles s ru \<longleftrightarrow>
        (\<exists>userId user. claims_sub ru = Some userId \<and> userId \<noteq> [] \<and> getUser s userId = Some user
           \<and> user_role user \<in> set allowedRoles))"
proof (intro conjI)
  show "requireRole allowedRoles s (claiming r1 ru) = requireRole allowedRoles s (claiming r2 ru)"
    by (simp add: requireRole_claiming)
  show "api w (Some (claiming r1 ru)) req s = api w (Some (claiming r2 ru)) req s"
    by (rule api_claiming)
  show "permitted allowedRoles s ru \<longleftrightarrow>
        (\<exists>userId user. claims_sub ru = Some userId \<and> userId \<noteq> [] \<and> getUser s userId = Some user
           \<and> user_role user \<in> set allowedRoles)"
    by (auto simp: permitted_def requireRole_def split: option.splits)
qed

theorem role_from_durable_record_witness:
  "res_status (fst (snd (api (at 5000 ''x'') (Some (claiming (Some ''manager'') (login ''u2'')))
      (PATCH_rooms_status ''r101'' (Some ''clean'')) hotel))) = 403
   \<and> res_status (fst (snd (api (at 5000 ''x'') (Some (claiming None (login ''u2'')))
      (PATCH_rooms_status ''r101'' (Some ''clean'')) hotel))) = 403"
proof -
  have "res_status (fst (snd (api (at 5000 ''x'') (Some (claiming None (login ''u2'')))
      (PATCH_rooms_status ''r101'' (Some ''clean'')) hotel))) = 403"
    by code_simp
  with role_from_durable_record [of "[]" hotel "Some ''manager''" "login ''u2''" None "at 5000 ''x''"
      "PATCH_rooms_status ''r101'' (Some ''clean'')"]
  show ?thesis by simp
qed

section \<open>Room state machine: the status enum\<close>

lemma updateRoomStatus_valid:
  "updateRoomStatus w i st s = Inr (s', r) \<Longrightarrow> status_valid s \<Longrightarrow> status_valid s'"
  by (auto simp: updateRoomStatus_def status_valid_def set_status_def Let_def split: if_splits)

lemma startCleaningSession_rooms:
  "startCleaningSession w d s = Inr (s', x) \<Longrightarrow> rooms s' = rooms s"
  by (auto simp: startCleaningSession_def Let_def split: if_splits)

lemma updateCleaningSession_rooms:
  "updateCleaningSession i u s = Inr (s', x) \<Longrightarrow> rooms s' = rooms s"
  by (auto simp: updateCleaningSession_def Let_def split: if_splits option.splits)

lemma saveChecklistCompletion_rooms:
  "saveChecklistCompletion w d s = Inr (s', x) \<Longrightarrow> rooms s' = rooms s"
  by (auto simp: saveChecklistCompletion_def Let_def split: if_splits)

lemma updateChecklistCompletion_rooms:
  "updateChecklistCompletion i u s = Inr (s', x) \<Longrightarrow> rooms s' = rooms s"
  by (auto simp: updateChecklistCompletion_def Let_def split: if_splits option.splits)

lemma createProblemReport_rooms:
  "createProblemReport w d s = Inr (s', x) \<Longrightarrow> rooms s' = rooms s"
  by (auto simp: createProblemReport_def Let_def split: if_splits)

lemma status_valid_rooms: "rooms s' = rooms s \<Longrightarrow> status_valid s \<Longrightarrow> status_valid s'"
  by (simp add: status_valid_def)

lemma route_valid: "status_valid s \<Longrightarrow> status_valid (fst (route w ru req s))"
proof (cases req)
  case (PATCH_rooms_status i b)
  assume "status_valid s"
  with PATCH_rooms_status show ?thesis
    by (auto simp: patch_room_status_def split: sum.splits dest: updateRoomStatus_valid)
next
  case (POST_cleaning_sessions b)
  assume "status_valid s"
  with POST_cleaning_sessions show ?thesis
    by (auto simp: post_cleaning_sessions_def split: sum.splits
        dest!: startCleaningSession_rooms dest: updateRoomStatus_valid status_valid_rooms)
next
  case (PATCH_cleaning_sessions i u)
  assume "status_valid s"
  with PATCH_cleaning_sessions show ?thesis
    by (auto simp: patch_cleaning_sessions_def split: sum.splits
        dest!: updateCleaningSession_rooms dest: status_valid_rooms)
next
  case (GET_cleaning_sessions_active i)
  assume "status_valid s"
  with GET_cleaning_sessions_active show ?thesis
    by (simp add: get_active_cleaning_session_def)
next
  case (POST_checklist_completions b)
  assume "status_valid s"
  with POST_checklist_completions show ?thesis
    by (auto simp: post_checklist_completions_def split: sum.splits
        dest!: saveChecklistCompletion_rooms dest: status_valid_rooms)
next
  case (PATCH_checklist_completions i u)
  assume "status_valid s"
  with PATCH_checklist_completions show ?thesis
    by (auto simp: patch_checklist_completions_def split: sum.splits option.splits if_splits
        dest!: updateChecklistCompletion_rooms dest: updateRoomStatus_valid status_valid_rooms)
next
  case (POST_problem_reports b)
  assume "status_valid s"
  with POST_problem_reports show ?thesis
    by (auto simp: post_problem_reports_def split: sum.splits
        dest!: createProblemReport_rooms dest: updateRoomStatus_valid status_valid_rooms)
qed

lemma step_valid: "status_valid s \<Longrightarrow> status_valid (step e s)"
  by (cases e)
    (auto simp: api_def route_valid on_connection_def on_close_def on_error_def
      set_readyState_def status_valid_def [of "_\<lparr>wsClients := _\<rparr>"] status_valid_def [of s]
      split: sum.splits)

lemma run_valid: "status_valid s \<Longrightarrow> status_valid (run es s)"
  by (induction es arbitrary: s) (simp_all add: step_valid)

lemma statusSchema_parse_Inr: "statusSchema_parse b = Inr st \<Longrightarrow> b = Some st"
  by (auto simp: statusSchema_parse_def split: option.splits if_splits)

lemma patch_invalid_target:
  "b \<notin> Some ` set roomStatusEnum \<Longrightarrow>
   patch_room_status w ru roomId b s = (s', r, ds) \<Longrightarrow>
   s' = s \<and> res_status r \<in> {400, 401, 403, 500} \<and> ds = []"
  unfolding patch_room_status_def
  by (cases "requireRole [''manager'', ''supervisor''] s ru"; cases "statusSchema_parse b")
    (auto simp: requireRole_def unauthorized_def updateRoomStatus_def failed_def
      dest!: statusSchema_parse_Inr split: option.splits if_splits)

lemma invalid_target_rejected:
  "b \<notin> Some ` set roomStatusEnum \<Longrightarrow>
   api w ru (PATCH_rooms_status roomId b) s = (s', r, ds) \<Longrightarrow>
   s' = s \<and> res_status r \<in> {400, 401, 403, 500} \<and> ds = []"
  unfolding api_def
  by (cases "isAuthenticated w ru")
    (auto dest: isAuthenticated_rejection patch_invalid_target)

text \<open>
  Claim C6. The statuses of all rooms stay inside the enumerated set of the
  \<open>room_status\<close> column through every run of the server, whatever requests and socket
  events it is made of. A transition request whose target is not in that set, or that
  names no status at all, fails (400, or 500 for \<open>approved\<close>, which the route's own
  list admits and the column does not; 401 or 403 when the caller is not let through),
  leaves the whole state as it was and broadcasts nothing.
\<close>

theorem room_status_enumerated:
  assumes "status_valid s"
  shows "status_valid (run es s)
    \<and> (b \<notin> Some ` set roomStatusEnum \<longrightarrow>
          fst (api w ru (PATCH_rooms_status roomId b) s) = s
          \<and> res_status (fst (snd (api w ru (PATCH_rooms_status roomId b) s))) \<in> {400, 401, 403, 500}
          \<and> snd (snd (api w ru (PATCH_rooms_status roomId b) s)) = [])"
  using run_valid [OF assms]
    invalid_target_rejected [of b w ru roomId s
      "fst (api w ru (PATCH_rooms_status roomId b) s)"
      "fst (snd (api w ru (PATCH_rooms_status roomId b) s))"
      "snd (snd (api w ru (PATCH_rooms_status roomId b) s))"]
  by simp

theorem room_status_enumerated_witness:
  "status_valid hotel
   \<and> status_valid (run [Request (at 5000 ''x'') (Some (login ''u1'')) (PATCH_rooms_status ''r101'' (Some ''clean'')),
                        Connection \<lparr>ws_id = 3, ws_readyState = 1\<rparr>,
                        Request (at 6000 ''s1'') (Some (login ''u2'')) (POST_cleaning_sessions (startCleaningMutation 6000 room101 ana))] hotel)
   \<and> map room_status (rooms (run [Request (at 5000 ''x'') (Some (login ''u1'')) (PATCH_rooms_status ''r101'' (Some ''clean'')),
                        Connection \<lparr>ws_id = 3, ws_readyState = 1\<rparr>,
                        Request (at 6000 ''s1'') (Some (login ''u2'')) (POST_cleaning_sessions (startCleaningMutation 6000 room101 ana))] hotel)) = [''cleaning'']
   \<and> Some ''approved'' \<notin> Some ` set roomStatusEnum
   \<and> fst (api (at 5000 ''x'') (Some (login ''u1'')) (PATCH_rooms_status ''r101'' (Some ''approved'')) hotel) = hotel
   \<and> res_status (fst (snd (api (at 5000 ''x'') (Some (login ''u1'')) (PATCH_rooms_status ''r101'' (Some ''approved'')) hotel))) = 500"
proof -
  have v: "status_valid hotel" by code_simp
  have n: "Some ''approved'' \<notin> Some ` set roomStatusEnum" by (simp add: roomStatusEnum_def)
  have r: "map room_status (rooms (run [Request (at 5000 ''x'') (Some (login ''u1'')) (PATCH_rooms_status ''r101'' (Some ''clean'')),
                        Connection \<lparr>ws_id = 3, ws_readyState = 1\<rparr>,
                        Request (at 6000 ''s1'') (Some (login ''u2'')) (POST_cleaning_sessions (startCleaningMutation 6000 room101 ana))] hotel)) = [''cleaning'']"
    by code_simp
  have e: "res_status (fst (snd (api (at 5000 ''x'') (Some (login ''u1'')) (PATCH_rooms_status ''r101'' (Some ''approved'')) hotel))) = 500"
    by code_simp
  from room_status_enumerated [OF v, of
      "[Request (at 5000 ''x'') (Some (login ''u1'')) (PATCH_rooms_status ''r101'' (Some ''clean'')),
                        Connection \<lparr>ws_id = 3, ws_readyState = 1\<rparr>,
                        Request (at 6000 ''s1'') (Some (login ''u2'')) (POST_cleaning_sessions (startCleaningMutation 6000 room101 ana))]"
      "Some ''approved''" "at 5000 ''x''" "Some (login ''u1'')" "''r101''"] v n r e
  show ?thesis by simp
qed

section \<open>Room state machine: an unknown room\<close>

text \<open>
  Claim C7 asks that a transition naming an unknown room id fails with NotFound and
  emits nothing. The update matches no row and returns \<open>undefined\<close>, which the route
  does not test: a manager's request for the unknown room \<open>r999\<close> is answered 200 with
  an empty body, and the open socket receives a \<open>room_status_update\<close> without a room.
  No record changes.
\<close>

theorem unknown_room_answers_200:
  "api (at 5000 ''x'') (Some (login ''u1'')) (PATCH_rooms_status ''r999'' (Some ''clean'')) hotel
   = (hotel, \<lparr>res_status = 200, res_body = RoomJson None\<rparr>,
      [(1, Room_status_update ''r999'' ''clean'' None)])"
  by code_simp

section \<open>Room state machine: a transition to the current status\<close>

text \<open>
  Claim C5, as stated, fails: a manager setting the dirty room 101 to \<open>dirty\<close> at
  instant 5000 is answered 200 and the status stays, but the room's \<open>updatedAt\<close>
  moves from 0 to 5000.
\<close>

theorem same_status_changes_updatedAt:
  "res_status (fst (snd (patch_room_status (at 5000 ''x'') (login ''u1'') ''r101'' (Some ''dirty'') hotel))) = 200
   \<and> map room_status (rooms hotel) = [''dirty'']
   \<and> map room_updatedAt (rooms hotel) = [Some 0]
   \<and> map room_updatedAt (rooms (fst (patch_room_status (at 5000 ''x'') (login ''u1'') ''r101'' (Some ''dirty'') hotel))) = [Some 5000]"
  by code_simp

lemma find_replaced:
  "x \<in> set xs \<Longrightarrow> (\<And>y. y \<in> set xs \<Longrightarrow> f y = f x \<Longrightarrow> y = x) \<Longrightarrow> f x' = f x \<Longrightarrow>
   find (\<lambda>y. f y = f x) (map (\<lambda>y. if y = x then x' else y) xs) = Some x'"
  by (induction xs) auto

text \<open>
  Claim C5, amended. A permitted transition of a stored room to the status it already
  has succeeds; the room keeps every field except \<open>updatedAt\<close>, which becomes the
  instant of the update; every other room and table is untouched; and exactly one
  \<open>room_status_update\<close> event, carrying the updated room, is broadcast.
\<close>

theorem same_status_transition:
  assumes "requireRole [''manager'', ''supervisor''] s ru = Inr currentUser"
    and "distinct (map room_id (rooms s))"
    and "r \<in> set (rooms s)"
    and "room_status r \<in> set roomStatusEnum"
  shows "patch_room_status w ru (room_id r) (Some (room_status r)) s =
     (s\<lparr>rooms := map (\<lambda>x. if x = r then r\<lparr>room_updatedAt := Some (now w)\<rparr> else x) (rooms s)\<rparr>,
      json (RoomJson (Some (r\<lparr>room_updatedAt := Some (now w)\<rparr>))),
      broadcast (wsClients s)
        (Room_status_update (room_id r) (room_status r) (Some (r\<lparr>room_updatedAt := Some (now w)\<rparr>))))"
proof -
  have same: "\<And>x. x \<in> set (rooms s) \<Longrightarrow> room_id x = room_id r \<Longrightarrow> x = r"
    using assms(2,3) by (meson distinct_map inj_onD)
  have m: "map (\<lambda>x. if room_id x = room_id r then set_status (now w) (room_status r) x else x) (rooms s)
         = map (\<lambda>x. if x = r then r\<lparr>room_updatedAt := Some (now w)\<rparr> else x) (rooms s)"
    using same by (auto simp: set_status_def)
  have f: "find (\<lambda>x. room_id x = room_id r)
             (map (\<lambda>x. if x = r then r\<lparr>room_updatedAt := Some (now w)\<rparr> else x) (rooms s))
           = Some (r\<lparr>room_updatedAt := Some (now w)\<rparr>)"
    using assms(3) same by (intro find_replaced) auto
  have z: "statusSchema_parse (Some (room_status r)) = Inr (room_status r)"
    using assms(4) by (auto simp: statusSchema_parse_def roomStatusEnum_def)
  show ?thesis
    using assms(1,4) by (simp add: patch_room_status_def z updateRoomStatus_def m f)
qed

theorem same_status_transition_witness:
  "requireRole [''manager'', ''supervisor''] hotel (login ''u1'') = Inr maria
   \<and> distinct (map room_id (rooms hotel))
   \<and> room101 \<in> set (rooms hotel)
   \<and> room_status room101 \<in> set roomStatusEnum
   \<and> patch_room_status (at 5000 ''x'') (login ''u1'') ''r101'' (Some ''dirty'') hotel =
       (hotel\<lparr>rooms := [room101\<lparr>room_updatedAt := Some 5000\<rparr>]\<rparr>,
        json (RoomJson (Some (room101\<lparr>room_updatedAt := Some 5000\<rparr>))),
        [(1, Room_status_update ''r101'' ''dirty'' (Some (room101\<lparr>room_updatedAt := Some 5000\<rparr>)))])"
proof -
  have p: "requireRole [''manager'', ''supervisor''] hotel (login ''u1'') = Inr maria"
    by code_simp
  have d: "distinct (map room_id (rooms hotel))"
    by code_simp
  have m: "room101 \<in> set (rooms hotel)"
    by (simp add: hotel_def)
  have v: "room_status room101 \<in> set roomStatusEnum"
    by code_simp
  have i: "room_id room101 = ''r101''" "room_status room101 = ''dirty''"
    by (simp_all add: room101_def)
  have c: "rooms hotel = [room101]" "now (at 5000 ''x'') = 5000"
    "broadcast (wsClients hotel) e = [(1, e)]" for e
    by (simp_all add: hotel_def at_def broadcast_def OPEN_def)
  from same_status_transition [OF p d m v, of "at 5000 ''x''"] p d m v
  show ?thesis
    by (simp add: i c)
qed

section \<open>Session timer: start\<close>

lemma start_outcome:
  assumes "room_id room \<in> room_ids s"
    and "user_id currentUser \<in> user_ids s"
    and "newId w \<notin> set (map cs_id (cleaningSessions s))"
  shows "post_cleaning_sessions w (startCleaningMutation t room currentUser) s =
     (s\<lparr>cleaningSessions := cleaningSessions s @
           [\<lparr>cs_id = newId w, cs_roomId = room_id room, cs_housekeeperId = user_id currentUser,
             cs_startTime = t, cs_endTime = None, cs_pausedTime = Some 0, cs_totalTime = None,
             cs_status = ''active'', cs_createdAt = Some (now w)\<rparr>],
         rooms := map (\<lambda>r. if room_id r = room_id room
                             then r\<lparr>room_status := ''cleaning'', room_updatedAt := Some (now w)\<rparr>
                             else r) (rooms s)\<rparr>,
      json (SessionJson (Some
           \<lparr>cs_id = newId w, cs_roomId = room_id room, cs_housekeeperId = user_id currentUser,
             cs_startTime = t, cs_endTime = None, cs_pausedTime = Some 0, cs_totalTime = None,
             cs_status = ''active'', cs_createdAt = Some (now w)\<rparr>)),
      broadcast (wsClients s) (Timer_update ''start'' (Some
           \<lparr>cs_id = newId w, cs_roomId = room_id room, cs_housekeeperId = user_id currentUser,
             cs_startTime = t, cs_endTime = None, cs_pausedTime = Some 0, cs_totalTime = None,
             cs_status = ''active'', cs_createdAt = Some (now w)\<rparr>)))"
proof -
  let ?d = "\<lparr>ics_roomId = room_id room, ics_housekeeperId = user_id currentUser,
               ics_startTime = t, ics_endTime = None,
               ics_pausedTime = None, ics_totalTime = None,
               ics_status = Some ''active''\<rparr>"
  let ?x = "\<lparr>cs_id = newId w, cs_roomId = room_id room, cs_housekeeperId = user_id currentUser,
             cs_startTime = t, cs_endTime = None, cs_pausedTime = Some 0, cs_totalTime = None,
             cs_status = ''active'', cs_createdAt = Some (now w)\<rparr>"
  have p: "insertCleaningSessionSchema_parse (startCleaningMutation t room currentUser) = Inr ?d"
    by (simp add: insertCleaningSessionSchema_parse_def startCleaningMutation_def)
  have n: "new_session w ?d = ?x"
    by (simp add: new_session_def or_default_def)
  have i: "startCleaningSession w ?d s = Inr (s\<lparr>cleaningSessions := cleaningSessions s @ [?x]\<rparr>, ?x)"
    using assms unfolding startCleaningSession_def n
    by (simp add: int4_opt_def int4_def room_ids_def user_ids_def Let_def)
  have u: "updateRoomStatus w (room_id room) ''cleaning'' (s\<lparr>cleaningSessions := cleaningSessions s @ [?x]\<rparr>)
      = Inr (s\<lparr>cleaningSessions := cleaningSessions s @ [?x],
               rooms := map (\<lambda>r. if room_id r = room_id room
                             then r\<lparr>room_status := ''cleaning'', room_updatedAt := Some (now w)\<rparr>
                             else r) (rooms s)\<rparr>,
             find (\<lambda>r. room_id r = room_id room) (map (\<lambda>r. if room_id r = room_id room
                             then r\<lparr>room_status := ''cleaning'', room_updatedAt := Some (now w)\<rparr>
                             else r) (rooms s)))"
    by (simp add: updateRoomStatus_def roomStatusEnum_def set_status_def Let_def cong: if_cong)
  show ?thesis
    unfolding post_cleaning_sessions_def p by (simp add: i u)
qed

text \<open>
  Claim C1, as stated, fails: room 101 has an active session, and a second start
  request for it is answered 200 and leaves two active sessions for the room. No route
  looks for an open session before inserting one.
\<close>

theorem second_start_succeeds:
  "getActiveCleaningSession ''r101'' cleaning = Some session1
   \<and> cs_status session1 = ''active''
   \<and> res_status (fst (snd (api (at 6000 ''s2'') (Some (login ''u2''))
         (POST_cleaning_sessions (startCleaningMutation 6000 room101 ana)) cleaning))) = 200
   \<and> map cs_roomId (cleaningSessions (fst (api (at 6000 ''s2'') (Some (login ''u2''))
         (POST_cleaning_sessions (startCleaningMutation 6000 room101 ana)) cleaning)))
       = [''r101'', ''r101'']
   \<and> map cs_status (cleaningSessions (fst (api (at 6000 ''s2'') (Some (login ''u2''))
         (POST_cleaning_sessions (startCleaningMutation 6000 room101 ana)) cleaning)))
       = [''active'', ''active'']"
  by code_simp

text \<open>
  Claim C1, amended. For a stored room and a stored user, the client's start request
  from an authenticated caller always succeeds, whether or not the room has an active
  or paused session: it inserts a session with the start time the client sent (its
  clock at the click), \<open>pausedTime = 0\<close>, no end or total time and status
  \<open>active\<close>, sets the room's status to \<open>cleaning\<close>, and broadcasts one
  \<open>timer_update\<close> event. There is no Conflict.
\<close>

theorem start_creates_session:
  assumes "isAuthenticated w ru = Inr user"
    and "room_id room \<in> room_ids s"
    and "user_id currentUser \<in> user_ids s"
    and "newId w \<notin> set (map cs_id (cleaningSessions s))"
  shows "api w ru (POST_cleaning_sessions (startCleaningMutation t room currentUser)) s =
     (s\<lparr>cleaningSessions := cleaningSessions s @
           [\<lparr>cs_id = newId w, cs_roomId = room_id room, cs_housekeeperId = user_id currentUser,
             cs_startTime = t, cs_endTime = None, cs_pausedTime = Some 0, cs_totalTime = None,
             cs_status = ''active'', cs_createdAt = Some (now w)\<rparr>],
         rooms := map (\<lambda>r. if room_id r = room_id room
                             then r\<lparr>room_status := ''cleaning'', room_updatedAt := Some (now w)\<rparr>
                             else r) (rooms s)\<rparr>,
      json (SessionJson (Some
           \<lparr>cs_id = newId w, cs_roomId = room_id room, cs_housekeeperId = user_id currentUser,
             cs_startTime = t, cs_endTime = None, cs_pausedTime = Some 0, cs_totalTime = None,
             cs_status = ''active'', cs_createdAt = Some (now w)\<rparr>)),
      broadcast (wsClients s) (Timer_update ''start'' (Some
           \<lparr>cs_id = newId w, cs_roomId = room_id room, cs_housekeeperId = user_id currentUser,
             cs_startTime = t, cs_endTime = None, cs_pausedTime = Some 0, cs_totalTime = None,
             cs_status = ''active'', cs_createdAt = Some (now w)\<rparr>)))"
  unfolding api_def using assms(1) start_outcome [OF assms(2-4), of t]
  by simp

theorem start_creates_session_witness:
  "isAuthenticated (at 6000 ''s2'') (Some (login ''u2'')) = Inr (login ''u2'')
   \<and> room_id room101 \<in> room_ids cleaning \<and> user_id ana \<in> user_ids cleaning
   \<and> newId (at 6000 ''s2'') \<notin> set (map cs_id (cleaningSessions cleaning))
   \<and> getActiveCleaningSession ''r101'' cleaning = Some session1
   \<and> api (at 6000 ''s2'') (Some (login ''u2''))
         (POST_cleaning_sessions (startCleaningMutation 6000 room101 ana)) cleaning =
       (cleaning\<lparr>cleaningSessions :=
                   [session1, session1\<lparr>cs_id := ''s2'', cs_startTime := 6000, cs_createdAt := Some 6000\<rparr>],
                 rooms := [room101\<lparr>room_status := ''cleaning'', room_updatedAt := Some 6000\<rparr>]\<rparr>,
        json (SessionJson (Some
          (session1\<lparr>cs_id := ''s2'', cs_startTime := 6000, cs_createdAt := Some 6000\<rparr>))),
        [(1, Timer_update ''start'' (Some
          (session1\<lparr>cs_id := ''s2'', cs_startTime := 6000, cs_createdAt := Some 6000\<rparr>)))])"
proof -
  have g: "isAuthenticated (at 6000 ''s2'') (Some (login ''u2'')) = Inr (login ''u2'')"
    by code_simp
  have r: "room_id room101 \<in> room_ids cleaning"
    by code_simp
  have u: "user_id ana \<in> user_ids cleaning"
    by code_simp
  have n: "newId (at 6000 ''s2'') \<notin> set (map cs_id (cleaningSessions cleaning))"
    by code_simp
  have a: "getActiveCleaningSession ''r101'' cleaning = Some session1"
    by code_simp
  have c: "rooms cleaning = [room101\<lparr>room_status := ''cleaning'', room_updatedAt := Some 5000\<rparr>]"
    "cleaningSessions cleaning = [session1]"
    "broadcast (wsClients cleaning) e = [(1, e)]" for e
    by (simp_all add: cleaning_def hotel_def broadcast_def OPEN_def)
  have i: "room_id room101 = ''r101''" "user_id ana = ''u2''"
    "now (at 6000 ''s2'') = 6000" "newId (at 6000 ''s2'') = ''s2''"
    by (simp_all add: room101_def ana_def at_def)
  from start_creates_session [OF g r u n, of 6000] g r u n a
  show ?thesis
    by (simp add: c i session1_def)
qed

section \<open>Session timer: completion\<close>

text \<open>
  The complete request of the client carries \<open>endTime\<close> as an ISO string. The update
  route has no schema to convert it, the timestamp column's encoder throws, and the
  route's \<open>catch\<close> answers 500: whatever the session and the state, nothing is
  written and nothing is broadcast.
\<close>

lemma complete_not_empty: "completeCleaningMutation t c \<noteq> no_updates"
proof
  assume "completeCleaningMutation t c = no_updates"
  then have "csu_status (completeCleaningMutation t c) = csu_status no_updates"
    by simp
  then show False
    by (simp add: completeCleaningMutation_def no_updates_def)
qed

lemma complete_rejected:
  "patch_cleaning_sessions sessionId (completeCleaningMutation t session) s =
     (s, failed ''Failed to update cleaning session'', [])"
proof -
  have "date_given (csu_endTime (completeCleaningMutation t session))"
    by (simp add: completeCleaningMutation_def date_given_def)
  then have "updateCleaningSession sessionId (completeCleaningMutation t session) s = Inl TypeError"
    by (simp add: updateCleaningSession_def complete_not_empty)
  then show ?thesis
    by (simp add: patch_cleaning_sessions_def)
qed

text \<open>
  Claim C2 asks that completing a session seals its total time to the whole seconds
  since its start plus its paused time. The client computes exactly that: for the
  session of room 101, started at 5000 and completed at 65999, its request carries a
  total of 60. But the request is answered 500 and the session stays as it was, active
  and with no total time.
\<close>

theorem complete_request_answered_500:
  "find (\<lambda>y. cs_id y = ''s1'') (cleaningSessions cleaning) = Some session1
   \<and> (65999 - cs_startTime session1) div 1000 + or_default 0 (cs_pausedTime session1) = 60
   \<and> completeCleaningMutation 65999 session1 =
       no_updates\<lparr>csu_status := Some ''completed'', csu_endTime := Some (Some (ISOString 65999)),
                  csu_totalTime := Some (Some 60)\<rparr>
   \<and> api (at 65999 ''c'') (Some (login ''u2''))
         (PATCH_cleaning_sessions ''s1'' (completeCleaningMutation 65999 session1)) cleaning =
       (cleaning,
        \<lparr>res_status = 500, res_body = Message ''Failed to update cleaning session''\<rparr>, [])
   \<and> map cs_totalTime (cleaningSessions cleaning) = [None]
   \<and> map cs_status (cleaningSessions cleaning) = [''active'']"
  by code_simp

section \<open>Session timer: start, pause, resume, complete\<close>

text \<open>
  Claim C3 asks that start, pause, resume and complete yield a total time equal to the
  time between start and complete. Ana starts the session of room 101 at 5000, pauses
  it and resumes it (the client has no resume action; the request used here sets the
  status back to \<open>active\<close>), each answered 200; her complete request at 65999 is
  answered 500, and the session, back as it was started, has no total time. Completing
  the freshly started session at the same instant is the same request on the same
  state, and fails the same way.
\<close>

theorem round_trip_complete_answered_500:
  "api (at 5000 ''s1'') (Some (login ''u2''))
       (POST_cleaning_sessions (startCleaningMutation 5000 room101 ana)) hotel =
     (cleaning, \<lparr>res_status = 200, res_body = SessionJson (Some session1)\<rparr>,
      [(1, Timer_update ''start'' (Some session1))])
   \<and> api (at 20000 ''a'') (Some (login ''u2''))
       (PATCH_cleaning_sessions ''s1'' pauseCleaningMutation) cleaning =
     (cleaning\<lparr>cleaningSessions := [session1\<lparr>cs_status := ''paused''\<rparr>]\<rparr>,
      \<lparr>res_status = 200, res_body = SessionJson (Some (session1\<lparr>cs_status := ''paused''\<rparr>))\<rparr>,
      [(1, Timer_update ''update'' (Some (session1\<lparr>cs_status := ''paused''\<rparr>)))])
   \<and> api (at 50000 ''b'') (Some (login ''u2''))
       (PATCH_cleaning_sessions ''s1'' resumeCleaning)
       (cleaning\<lparr>cleaningSessions := [session1\<lparr>cs_status := ''paused''\<rparr>]\<rparr>) =
     (cleaning, \<lparr>res_status = 200, res_body = SessionJson (Some session1)\<rparr>,
      [(1, Timer_update ''update'' (Some session1))])
   \<and> api (at 65999 ''c'') (Some (login ''u2''))
       (PATCH_cleaning_sessions ''s1'' (completeCleaningMutation 65999 session1)) cleaning =
     (cleaning,
      \<lparr>res_status = 500, res_body = Message ''Failed to update cleaning session''\<rparr>, [])
   \<and> cs_startTime session1 = 5000
   \<and> map cs_totalTime (cleaningSessions cleaning) = [None]"
  by code_simp

section \<open>Session timer: a completed session\<close>

text \<open>
  Claim C8, as stated, fails: the session of room 101 is completed with a total of 60
  seconds; a second complete request, carrying the status and a total of 120, is
  answered 200 and rewrites the total. The update route applies an update to a session
  whatever its status.
\<close>

theorem second_complete_overwrites:
  "find (\<lambda>y. cs_id y = ''s1'') (cleaningSessions finished) = Some completed1
   \<and> cs_status completed1 = ''completed''
   \<and> cs_totalTime completed1 = Some 60
   \<and> api (at 125000 ''d'') (Some (login ''u2''))
         (PATCH_cleaning_sessions ''s1'' (completeWithTotal 120)) finished =
       (finished\<lparr>cleaningSessions := [completed1\<lparr>cs_totalTime := Some 120\<rparr>]\<rparr>,
        \<lparr>res_status = 200, res_body = SessionJson (Some (completed1\<lparr>cs_totalTime := Some 120\<rparr>))\<rparr>,
        [(1, Timer_update ''update'' (Some (completed1\<lparr>cs_totalTime := Some 120\<rparr>)))])"
  by code_simp

lemma find_Some_key: "find (\<lambda>y. f y = k) xs = Some x \<Longrightarrow> f x = k \<and> x \<in> set xs"
  by (induction xs) (auto split: if_splits)

lemma find_member:
  "x \<in> set xs \<Longrightarrow> (\<And>y. y \<in> set xs \<Longrightarrow> f y = f x \<Longrightarrow> y = x) \<Longrightarrow>
   find (\<lambda>y. f y = f x) xs = Some x"
  by (induction xs) auto

lemma completeWithTotal_not_empty: "completeWithTotal n \<noteq> no_updates"
proof
  assume "completeWithTotal n = no_updates"
  then have "csu_status (completeWithTotal n) = csu_status no_updates"
    by simp
  then show False
    by (simp add: completeWithTotal_def no_updates_def)
qed

lemma set_session_completeWithTotal:
  "set_session (completeWithTotal n) y = y\<lparr>cs_totalTime := Some n, cs_status := ''completed''\<rparr>"
  by (simp add: set_session_def completeWithTotal_def no_updates_def or_default_def null_or_kept_def)

lemma completeWithTotal_outcome:
  assumes "find (\<lambda>y. cs_id y = sessionId) (cleaningSessions s) = Some x"
    and "int4 n"
  shows "patch_cleaning_sessions sessionId (completeWithTotal n) s =
     (s\<lparr>cleaningSessions :=
          map (\<lambda>y. if cs_id y = sessionId
                    then y\<lparr>cs_totalTime := Some n, cs_status := ''completed''\<rparr>
                    else y) (cleaningSessions s)\<rparr>,
      json (SessionJson (Some (x\<lparr>cs_totalTime := Some n, cs_status := ''completed''\<rparr>))),
      broadcast (wsClients s) (Timer_update ''update'' (Some
          (x\<lparr>cs_totalTime := Some n, cs_status := ''completed''\<rparr>))))"
proof -
  have k: "cs_id x = sessionId"
    using find_Some_key [OF assms(1)] by simp
  have v: "csu_startTime (completeWithTotal n) = None"
    "\<not> date_given (csu_endTime (completeWithTotal n))"
    "\<not> date_given (csu_createdAt (completeWithTotal n))"
    "int4_opt (or_default None (csu_pausedTime (completeWithTotal n)))"
    "int4_opt (or_default None (csu_totalTime (completeWithTotal n)))"
    "fk_opt (room_ids s) (csu_roomId (completeWithTotal n))"
    "fk_opt (user_ids s) (csu_housekeeperId (completeWithTotal n))"
    using assms(2)
    by (simp_all add: completeWithTotal_def no_updates_def or_default_def int4_opt_def
        fk_opt_def date_given_def)
  have u: "updateCleaningSession sessionId (completeWithTotal n) s =
      Inr (s\<lparr>cleaningSessions :=
          map (\<lambda>y. if cs_id y = sessionId
                    then y\<lparr>cs_totalTime := Some n, cs_status := ''completed''\<rparr>
                    else y) (cleaningSessions s)\<rparr>,
         Some (x\<lparr>cs_totalTime := Some n, cs_status := ''completed''\<rparr>))"
    unfolding updateCleaningSession_def
    by (simp add: completeWithTotal_not_empty v assms(1) set_session_completeWithTotal k Let_def)
  show ?thesis
    unfolding patch_cleaning_sessions_def by (simp add: u)
qed

text \<open>
  Claim C8, amended. On a stored session whose status is \<open>completed\<close>, a further
  complete request that carries the status and a total time fitting the \<open>integer\<close>
  column, and no timestamp, succeeds for an authenticated caller: the session stays
  \<open>completed\<close>, its total time is overwritten, no other field and no other record
  changes, and one \<open>timer_update\<close> event is broadcast. There is no InvalidTransition.
\<close>

theorem complete_again:
  assumes "isAuthenticated w ru = Inr user"
    and "distinct (map cs_id (cleaningSessions s))"
    and "session \<in> set (cleaningSessions s)"
    and "cs_status session = ''completed''"
    and "int4 n"
  shows "api w ru (PATCH_cleaning_sessions (cs_id session) (completeWithTotal n)) s =
     (s\<lparr>cleaningSessions :=
          map (\<lambda>y. if y = session then session\<lparr>cs_totalTime := Some n\<rparr> else y)
            (cleaningSessions s)\<rparr>,
      json (SessionJson (Some (session\<lparr>cs_totalTime := Some n\<rparr>))),
      broadcast (wsClients s) (Timer_update ''update'' (Some (session\<lparr>cs_totalTime := Some n\<rparr>))))"
proof -
  have same: "\<And>y. y \<in> set (cleaningSessions s) \<Longrightarrow> cs_id y = cs_id session \<Longrightarrow> y = session"
    using assms(2,3) by (meson distinct_map inj_onD)
  have f: "find (\<lambda>y. cs_id y = cs_id session) (cleaningSessions s) = Some session"
    using assms(3) same by (intro find_member) auto
  have e: "session\<lparr>cs_totalTime := Some n, cs_status := ''completed''\<rparr> = session\<lparr>cs_totalTime := Some n\<rparr>"
    using assms(4) by simp
  have m: "map (\<lambda>y. if cs_id y = cs_id session
                    then y\<lparr>cs_totalTime := Some n, cs_status := ''completed''\<rparr>
                    else y) (cleaningSessions s)
         = map (\<lambda>y. if y = session then session\<lparr>cs_totalTime := Some n\<rparr> else y) (cleaningSessions s)"
    using same e by auto
  show ?thesis
    unfolding api_def using assms(1) completeWithTotal_outcome [OF f assms(5)]
    by (simp add: e m)
qed

theorem complete_again_witness:
  "isAuthenticated (at 125000 ''d'') (Some (login ''u2'')) = Inr (login ''u2'')
   \<and> distinct (map cs_id (cleaningSessions finished))
   \<and> completed1 \<in> set (cleaningSessions finished)
   \<and> cs_status completed1 = ''completed''
   \<and> int4 120
   \<and> api (at 125000 ''d'') (Some (login ''u2''))
         (PATCH_cleaning_sessions ''s1'' (completeWithTotal 120)) finished =
       (finished\<lparr>cleaningSessions := [completed1\<lparr>cs_totalTime := Some 120\<rparr>]\<rparr>,
        json (SessionJson (Some (completed1\<lparr>cs_totalTime := Some 120\<rparr>))),
        [(1, Timer_update ''update'' (Some (completed1\<lparr>cs_totalTime := Some 120\<rparr>)))])"
proof -
  have g: "isAuthenticated (at 125000 ''d'') (Some (login ''u2'')) = Inr (login ''u2'')"
    by code_simp
  have d: "distinct (map cs_id (cleaningSessions finished))"
    by code_simp
  have m: "completed1 \<in> set (cleaningSessions finished)"
    by (simp add: finished_def)
  have c: "cs_status completed1 = ''completed''"
    by code_simp
  have i: "int4 120"
    by code_simp
  have k: "cs_id completed1 = ''s1''" "cleaningSessions finished = [completed1]"
    "broadcast (wsClients finished) e = [(1, e)]" for e
    by (simp_all add: completed1_def session1_def finished_def cleaning_def hotel_def
        broadcast_def OPEN_def)
  from complete_again [OF g d m c i] g d m c i
  show ?thesis
    by (simp add: k)
qed

section \<open>Session timer: the active-session query\<close>







end
